theory Spec2Isabelle
  imports Complex_Main "HOL-Library.AList"
begin

section \<open>JavaScript values\<close>

text \<open>
  The handlers read \<open>req.body\<close> and \<open>req.query\<close>, which hold whatever the
  client sent. A value is therefore one of the JavaScript values a parsed JSON body or a
  parsed query string can hold, or \<open>undefined\<close> for an absent property. An object is
  the list of its properties in insertion order. Numbers parsed from JSON are finite, so
  a number is a real; no handler does arithmetic on one.
\<close>

datatype jsval =
    JUndefined
  | JNull
  | JBool bool
  | JNum real
  | JStr string
  | JArr "jsval list"
  | JObj "(string \<times> jsval) list"

type_synonym props = "(string \<times> jsval) list"

text \<open>Property read \<open>obj.k\<close>: \<open>undefined\<close> when the object has no such property.\<close>

definition get_prop :: "props \<Rightarrow> string \<Rightarrow> jsval" where
  "get_prop obj k = (case map_of obj k of None \<Rightarrow> JUndefined | Some v \<Rightarrow> v)"

text \<open>
  Property write \<open>obj.k = v\<close>: an existing property keeps its place, a new one goes
  last.
\<close>

definition set_prop :: "props \<Rightarrow> string \<Rightarrow> jsval \<Rightarrow> props" where
  "set_prop obj k v = AList.update k v obj"

text \<open>
  What \<open>if (v)\<close> tests: \<open>undefined\<close>, \<open>null\<close>, \<open>false\<close>, \<open>0\<close> and the
  empty string are falsy, every other value (arrays and objects included) is truthy.
\<close>

primrec truthy :: "jsval \<Rightarrow> bool" where
  "truthy JUndefined = False"
| "truthy JNull = False"
| "truthy (JBool b) = b"
| "truthy (JNum n) = (n \<noteq> 0)"
| "truthy (JStr s) = (s \<noteq> [])"
| "truthy (JArr vs) = True"
| "truthy (JObj ps) = True"

text \<open>
  A destructuring default, \<open>const { k = dflt } = obj\<close>: the default is taken exactly
  when the property is \<open>undefined\<close>.
\<close>

definition destructure_default :: "props \<Rightarrow> string \<Rightarrow> jsval \<Rightarrow> jsval" where
  "destructure_default obj k dflt = (if get_prop obj k = JUndefined then dflt else get_prop obj k)"

text \<open>\<open>const ADD = "add"; const REMOVE = "remove";\<close> (user.controller.js)\<close>

definition ADD :: jsval where
  "ADD = JStr ''add''"

definition REMOVE :: jsval where
  "REMOVE = JStr ''remove''"

text \<open>
  \<open>v === w\<close> where one side is a string primitive, as in \<open>operation === ADD\<close>:
  it holds exactly when the other side is the same string, so it is equality of values.
\<close>

definition strict_eq :: "jsval \<Rightarrow> jsval \<Rightarrow> bool" where
  "strict_eq v w = (v = w)"

section \<open>Documents, errors and the database\<close>

text \<open>
  An id is a JavaScript value: the route parameter and the ids in request bodies reach
  the data layer as they were sent.
\<close>

type_synonym oid = jsval

text \<open>
  Modelled from the spec: the User schema of user.model.js, which is not among the
  sources. Section 3 of the specification lists the identity fields and the four
  relationship fields, each a set of ids.
\<close>

record user =
  user_id :: oid
  username :: jsval
  email :: jsval
  password :: jsval
  favTeams :: "jsval set"
  following :: "oid set"
  followers :: "oid set"
  followingBars :: "oid set"

text \<open>
  Modelled from the spec: the Bar schema of bar.model.js, which is not among the
  sources: name, external place id, a geolocation point and the set of followers.
\<close>

record bar =
  bar_id :: oid
  name :: jsval
  placeId :: jsval
  location :: jsval
  bar_followers :: "oid set"

text \<open>
  Modelled from the spec: the constants of helpers/ErrorMessages, which is not among the
  sources. Only that they are fixed and distinct matters.
\<close>

datatype error_message =
    ERROR_ON_FOLLOW_TEAM
  | ERROR_ON_UNFOLLOW_TEAM
  | ERROR_ON_FOLLOW_USER
  | ERROR_ON_UNFOLLOW_USER
  | ERROR_GETTING_PROMO_FROM_FAVORITE_BARS

text \<open>\<open>httpStatus.BAD_REQUEST\<close> of the http-status package.\<close>

definition BAD_REQUEST :: nat where
  "BAD_REQUEST = 400"

text \<open>
  The errors a promise can reject with. \<open>APIError message status isPublic\<close> is the
  typed application error the controller constructs with \<open>new APIError(...)\<close>;
  \<open>NotFound\<close> is the data layer's answer to an id no document matches; \<open>SelfFollow\<close>
  is the rejection of a user following themselves (the specification does not name its
  kind); \<open>StorageError\<close> stands for any error of the storage driver, told apart by
  its text.
\<close>

datatype error =
    APIError error_message nat bool
  | NotFound
  | SelfFollow
  | StorageError string

text \<open>
  The state the handlers run against: the two collections, the counter the ids of new
  documents are drawn from, and the outcomes of the storage calls to come. Every call to
  the storage layer takes the next outcome: \<open>Some e\<close> makes that call fail with \<open>e\<close>
  and change nothing, \<open>None\<close> (or no outcome left) lets it go through.
\<close>

record db =
  users :: "oid \<rightharpoonup> user"
  bars :: "oid \<rightharpoonup> bar"
  next_oid :: nat
  faults :: "error option list"

text \<open>A promise: run against the database, it rejects (\<open>Inl\<close>) or resolves (\<open>Inr\<close>).\<close>

type_synonym 'a promise = "db \<Rightarrow> (error + 'a) \<times> db"

definition storage_call :: "db \<Rightarrow> error option \<times> db" where
  "storage_call d =
     (case faults d of
        [] \<Rightarrow> (None, d)
      | f # fs \<Rightarrow> (f, d\<lparr>faults := fs\<rparr>))"

section \<open>Requests and responses\<close>

text \<open>
  What a handler does with a request: \<open>res.json(x)\<close>, \<open>next(e)\<close>, or neither when
  a promise rejects with no \<open>catch\<close> attached.
\<close>

datatype 'a response =
    Json 'a
  | Next error
  | Unhandled error

record req =
  body :: props
  query :: props

text \<open>
  A request after the \<open>userId\<close> parameter was loaded (\<open>req.queryUser\<close>), and one
  after the \<open>barId\<close> parameter was loaded (\<open>req.queryBar\<close>).
\<close>

record user_req = req +
  queryUser :: user

record bar_req = req +
  queryBar :: bar

section \<open>The data layer\<close>

text \<open>
  Modelled from the spec: \<open>User.get\<close> of user.model.js, which is not among the
  sources. Section 4.1: get(id) fails with NotFound when no document matches.
\<close>

definition User_get :: "oid \<Rightarrow> user promise" where
  "User_get i d =
     (case storage_call d of
        (Some e, d1) \<Rightarrow> (Inl e, d1)
      | (None, d1) \<Rightarrow>
          (case users d1 i of
             None \<Rightarrow> (Inl NotFound, d1)
           | Some u \<Rightarrow> (Inr u, d1)))"

text \<open>
  Modelled from the spec: \<open>Bar.get\<close> of bar.model.js, which is not among the sources.
  Section 4.1: get(id) fails with NotFound when no document matches.
\<close>

definition Bar_get :: "oid \<Rightarrow> bar promise" where
  "Bar_get i d =
     (case storage_call d of
        (Some e, d1) \<Rightarrow> (Inl e, d1)
      | (None, d1) \<Rightarrow>
          (case bars d1 i of
             None \<Rightarrow> (Inl NotFound, d1)
           | Some b \<Rightarrow> (Inr b, d1)))"

text \<open>
  \<open>user.save()\<close>, the document method of the Mongoose library: one storage call that
  stores the document in hand under its id and resolves with it.
\<close>

definition user_save :: "user \<Rightarrow> user promise" where
  "user_save u d =
     (case storage_call d of
        (Some e, d1) \<Rightarrow> (Inl e, d1)
      | (None, d1) \<Rightarrow> (Inr u, d1\<lparr>users := (users d1)(user_id u \<mapsto> u)\<rparr>))"

text \<open>
  \<open>bar.save()\<close>, the document method of the Mongoose library: one storage call that
  stores the document in hand under its id and resolves with it. A constraint of the
  storage layer that refuses the document is a failing storage call.
\<close>

definition bar_save :: "bar \<Rightarrow> bar promise" where
  "bar_save b d =
     (case storage_call d of
        (Some e, d1) \<Rightarrow> (Inl e, d1)
      | (None, d1) \<Rightarrow> (Inr b, d1\<lparr>bars := (bars d1)(bar_id b \<mapsto> b)\<rparr>))"

text \<open>
  Modelled from the spec: the single-document update the relationship operations of
  user.model.js (not among the sources) are made of. One storage call changes the stored
  document with the given id and resolves with the changed document; NotFound when there
  is none.
\<close>

definition update_user :: "oid \<Rightarrow> (user \<Rightarrow> user) \<Rightarrow> user promise" where
  "update_user i f d =
     (case storage_call d of
        (Some e, d1) \<Rightarrow> (Inl e, d1)
      | (None, d1) \<Rightarrow>
          (case users d1 i of
             None \<Rightarrow> (Inl NotFound, d1)
           | Some u \<Rightarrow> (Inr (f u), d1\<lparr>users := (users d1)(i \<mapsto> f u)\<rparr>)))"

text \<open>
  Modelled from the spec: the same single-document update for the operations of
  bar.model.js (not among the sources).
\<close>

definition update_bar :: "oid \<Rightarrow> (bar \<Rightarrow> bar) \<Rightarrow> bar promise" where
  "update_bar i f d =
     (case storage_call d of
        (Some e, d1) \<Rightarrow> (Inl e, d1)
      | (None, d1) \<Rightarrow>
          (case bars d1 i of
             None \<Rightarrow> (Inl NotFound, d1)
           | Some b \<Rightarrow> (Inr (f b), d1\<lparr>bars := (bars d1)(i \<mapsto> f b)\<rparr>)))"

text \<open>
  Modelled from the spec: \<open>User.followUser\<close> of user.model.js, which is not among the
  sources. Section 4.2: idempotent add of targetId to actor.following and of the actor to
  target.followers; fails with NotFound if the target does not exist; fails if the actor
  is the target. Section 5: two sequential document updates, the actor's first.
\<close>

definition User_followUser :: "user \<Rightarrow> oid \<Rightarrow> unit promise" where
  "User_followUser actor targetId d =
     (if user_id actor = targetId then (Inl SelfFollow, d)
      else
        (case User_get targetId d of
           (Inl e, d1) \<Rightarrow> (Inl e, d1)
         | (Inr target, d1) \<Rightarrow>
             (case update_user (user_id actor) (\<lambda>u. u\<lparr>following := insert targetId (following u)\<rparr>) d1 of
                (Inl e, d2) \<Rightarrow> (Inl e, d2)
              | (Inr a, d2) \<Rightarrow>
                  (case update_user targetId (\<lambda>u. u\<lparr>followers := insert (user_id actor) (followers u)\<rparr>) d2 of
                     (Inl e, d3) \<Rightarrow> (Inl e, d3)
                   | (Inr t, d3) \<Rightarrow> (Inr (), d3)))))"

text \<open>
  Modelled from the spec: \<open>User.unfollowUser\<close> of user.model.js, which is not among
  the sources. Section 4.2: idempotent removal from both sides; removing a relation that
  is not there is no error. The target is looked up first, as for a follow.
\<close>

definition User_unfollowUser :: "user \<Rightarrow> oid \<Rightarrow> unit promise" where
  "User_unfollowUser actor targetId d =
     (case User_get targetId d of
        (Inl e, d1) \<Rightarrow> (Inl e, d1)
      | (Inr target, d1) \<Rightarrow>
          (case update_user (user_id actor) (\<lambda>u. u\<lparr>following := following u - {targetId}\<rparr>) d1 of
             (Inl e, d2) \<Rightarrow> (Inl e, d2)
           | (Inr a, d2) \<Rightarrow>
               (case update_user targetId (\<lambda>u. u\<lparr>followers := followers u - {user_id actor}\<rparr>) d2 of
                  (Inl e, d3) \<Rightarrow> (Inl e, d3)
                | (Inr t, d3) \<Rightarrow> (Inr (), d3))))"

text \<open>
  Modelled from the spec: \<open>User.addFavTeam\<close> of user.model.js, which is not among the
  sources. Section 4.2: a single-sided set membership update on the user only.
\<close>

definition User_addFavTeam :: "oid \<Rightarrow> jsval \<Rightarrow> user promise" where
  "User_addFavTeam userId teamId d =
     update_user userId (\<lambda>u. u\<lparr>favTeams := insert teamId (favTeams u)\<rparr>) d"

text \<open>
  Modelled from the spec: \<open>User.removeFavTeam\<close> of user.model.js, which is not among
  the sources. Section 4.2: a single-sided set membership update on the user only.
\<close>

definition User_removeFavTeam :: "oid \<Rightarrow> jsval \<Rightarrow> user promise" where
  "User_removeFavTeam userId teamId d =
     update_user userId (\<lambda>u. u\<lparr>favTeams := favTeams u - {teamId}\<rparr>) d"

text \<open>
  Modelled from the spec: the document method \<open>addFollower\<close> of bar.model.js, which is
  not among the sources. Section 4.2: the bar's side of the pairing between
  user.followingBars and bar.followers.
\<close>

definition bar_addFollower :: "bar \<Rightarrow> oid \<Rightarrow> bar promise" where
  "bar_addFollower b userId d =
     update_bar (bar_id b) (\<lambda>x. x\<lparr>bar_followers := insert userId (bar_followers x)\<rparr>) d"

text \<open>
  Modelled from the spec: the document method \<open>removeFollower\<close> of bar.model.js, which
  is not among the sources. Section 4.2: the bar's side of the same pairing.
\<close>

definition bar_removeFollower :: "bar \<Rightarrow> oid \<Rightarrow> bar promise" where
  "bar_removeFollower b userId d =
     update_bar (bar_id b) (\<lambda>x. x\<lparr>bar_followers := bar_followers x - {userId}\<rparr>) d"

text \<open>
  Modelled from the spec: the document method \<open>followBar\<close> of user.model.js, which is
  not among the sources. Section 4.2: the user's side of the pairing between
  user.followingBars and bar.followers.
\<close>

definition userDoc_followBar :: "user \<Rightarrow> oid \<Rightarrow> user promise" where
  "userDoc_followBar userDoc barId d =
     update_user (user_id userDoc) (\<lambda>u. u\<lparr>followingBars := insert barId (followingBars u)\<rparr>) d"

text \<open>
  Modelled from the spec: the document method \<open>unfollowBar\<close> of user.model.js, which
  is not among the sources. Section 4.2: the user's side of the same pairing.
\<close>

definition userDoc_unfollowBar :: "user \<Rightarrow> oid \<Rightarrow> user promise" where
  "userDoc_unfollowBar userDoc barId d =
     update_user (user_id userDoc) (\<lambda>u. u\<lparr>followingBars := followingBars u - {barId}\<rparr>) d"

text \<open>
  Modelled from the spec: the constructor \<open>new Bar(obj)\<close> of the model compiled from
  the schema of bar.model.js, which is not among the sources. The document takes a fresh
  id and the schema's fields (section 3) from the object; a new bar has no followers.
\<close>

definition new_Bar :: "props \<Rightarrow> db \<Rightarrow> bar \<times> db" where
  "new_Bar obj d =
     (\<lparr>bar_id = JNum (of_nat (next_oid d)),
       name = get_prop obj ''name'',
       placeId = get_prop obj ''placeId'',
       location = get_prop obj ''location'',
       bar_followers = {}\<rparr>,
      d\<lparr>next_oid := Suc (next_oid d)\<rparr>)"

text \<open>\<open>user.toObject()\<close> of the Mongoose library: a plain copy of the document.\<close>

definition toObject :: "user \<Rightarrow> user" where
  "toObject u = u"

section \<open>The user controller (user.controller.js)\<close>

text \<open>
  \<open>load(req, res, next, id)\<close>: \<open>Inr\<close> is \<open>next()\<close> with \<open>req.queryUser\<close>
  set, \<open>Inl e\<close> is \<open>next(e)\<close>.
\<close>

definition userCtrl_load :: "req \<Rightarrow> oid \<Rightarrow> db \<Rightarrow> (error + user_req) \<times> db" where
  "userCtrl_load req i d =
     (case User_get i d of
        (Inr user, d1) \<Rightarrow> (Inr \<lparr>body = body req, query = query req, queryUser = user\<rparr>, d1)
      | (Inl e, d1) \<Rightarrow> (Inl e, d1))"

text \<open>
  \<open>get(req, res)\<close>: the promise has no \<open>catch\<close>. \<open>TeamService.populateTeams\<close> is
  in team.service.js, not among the sources; the handler takes it as
  \<open>populateTeams\<close>, called with the user's favTeams.
\<close>

definition userCtrl_get ::
  "(jsval set \<Rightarrow> jsval set promise) \<Rightarrow> user_req \<Rightarrow> db \<Rightarrow> user response \<times> db" where
  "userCtrl_get populateTeams req d =
     (let user = queryUser req in
      case populateTeams (favTeams user) d of
        (Inr teams, d1) \<Rightarrow>
          (let userObj = toObject user;
               userObj = userObj\<lparr>favTeams := teams\<rparr>
           in (Json userObj, d1))
      | (Inl e, d1) \<Rightarrow> (Unhandled e, d1))"

definition userCtrl_update :: "user_req \<Rightarrow> db \<Rightarrow> user response \<times> db" where
  "userCtrl_update req d =
     (let user = queryUser req;
          user = (if truthy (get_prop (body req) ''username'')
                  then user\<lparr>username := get_prop (body req) ''username''\<rparr>
                  else user)
      in case user_save user d of
           (Inr savedUser, d1) \<Rightarrow> (Json savedUser, d1)
         | (Inl e, d1) \<Rightarrow> (Next e, d1))"

text \<open>
  \<open>list(req, res, next)\<close>. \<open>User.list\<close> is in user.model.js, not among the sources;
  the handler takes it as \<open>User_list\<close>, called with the limit and the skip.
\<close>

definition userCtrl_list ::
  "(jsval \<Rightarrow> jsval \<Rightarrow> user list promise) \<Rightarrow> req \<Rightarrow> db \<Rightarrow> user list response \<times> db" where
  "userCtrl_list User_list req d =
     (let limit = destructure_default (query req) ''limit'' (JNum 50);
          skip = destructure_default (query req) ''skip'' (JNum 0)
      in case User_list limit skip d of
           (Inr us, d1) \<Rightarrow> (Json us, d1)
         | (Inl e, d1) \<Rightarrow> (Next e, d1))"

definition updateFavTeams :: "user_req \<Rightarrow> db \<Rightarrow> user response \<times> db" where
  "updateFavTeams req d =
     (let user = queryUser req;
          teamId = get_prop (body req) ''favTeamId'';
          operation = get_prop (body req) ''operation''
      in if strict_eq operation ADD then
           (case User_addFavTeam (user_id user) teamId d of
              (Inr u, d1) \<Rightarrow> (Json u, d1)
            | (Inl err, d1) \<Rightarrow> (Next (APIError ERROR_ON_FOLLOW_TEAM BAD_REQUEST True), d1))
         else
           (case User_removeFavTeam (user_id user) teamId d of
              (Inr u, d1) \<Rightarrow> (Json u, d1)
            | (Inl err, d1) \<Rightarrow> (Next (APIError ERROR_ON_UNFOLLOW_TEAM BAD_REQUEST True), d1)))"

text \<open>\<open>_followUser(user, userToBeFollowedId)\<close>\<close>

definition followUser_priv :: "user \<Rightarrow> oid \<Rightarrow> user promise" where
  "followUser_priv user userToBeFollowedId d =
     (case User_followUser user userToBeFollowedId d of
        (Inr _, d1) \<Rightarrow> User_get (user_id user) d1
      | (Inl e, d1) \<Rightarrow> (Inl e, d1))"

text \<open>\<open>_unfollowUser(user, userToBeUnfollowedId)\<close>\<close>

definition unfollowUser_priv :: "user \<Rightarrow> oid \<Rightarrow> user promise" where
  "unfollowUser_priv user userToBeUnfollowedId d =
     (case User_unfollowUser user userToBeUnfollowedId d of
        (Inr _, d1) \<Rightarrow> User_get (user_id user) d1
      | (Inl e, d1) \<Rightarrow> (Inl e, d1))"

definition updateFollowing :: "user_req \<Rightarrow> db \<Rightarrow> user response \<times> db" where
  "updateFollowing req d =
     (let user = queryUser req;
          userToBeFollowedOrUnfollowedId = get_prop (body req) ''user'';
          operation = get_prop (body req) ''operation''
      in if strict_eq operation ADD then
           (case followUser_priv user userToBeFollowedOrUnfollowedId d of
              (Inr u, d1) \<Rightarrow> (Json u, d1)
            | (Inl err, d1) \<Rightarrow> (Next (APIError ERROR_ON_FOLLOW_USER BAD_REQUEST True), d1))
         else
           (case unfollowUser_priv user userToBeFollowedOrUnfollowedId d of
              (Inr u, d1) \<Rightarrow> (Json u, d1)
            | (Inl err, d1) \<Rightarrow> (Next (APIError ERROR_ON_UNFOLLOW_USER BAD_REQUEST True), d1)))"

text \<open>
  \<open>_followBar(userDoc, barId)\<close>: the \<open>catch\<close> rethrows the error as it is, and the
  promise returned last settles the function's own.
\<close>

definition followBar_priv :: "user \<Rightarrow> oid \<Rightarrow> user promise" where
  "followBar_priv userDoc barId d =
     (case Bar_get barId d of
        (Inl err, d1) \<Rightarrow> (Inl err, d1)
      | (Inr b, d1) \<Rightarrow>
          (case bar_addFollower b (user_id userDoc) d1 of
             (Inl err, d2) \<Rightarrow> (Inl err, d2)
           | (Inr _, d2) \<Rightarrow> userDoc_followBar userDoc barId d2))"

text \<open>\<open>_unfollowBar(userDoc, barId)\<close>\<close>

definition unfollowBar_priv :: "user \<Rightarrow> oid \<Rightarrow> user promise" where
  "unfollowBar_priv userDoc barId d =
     (case Bar_get barId d of
        (Inl err, d1) \<Rightarrow> (Inl err, d1)
      | (Inr b, d1) \<Rightarrow>
          (case bar_removeFollower b (user_id userDoc) d1 of
             (Inl err, d2) \<Rightarrow> (Inl err, d2)
           | (Inr _, d2) \<Rightarrow> userDoc_unfollowBar userDoc barId d2))"

definition updateFollowingBars :: "user_req \<Rightarrow> db \<Rightarrow> user response \<times> db" where
  "updateFollowingBars req d =
     (let user = queryUser req;
          barId = get_prop (body req) ''barId'';
          operation = get_prop (body req) ''operation'';
          promise = (if strict_eq operation ADD
                     then followBar_priv user barId
                     else unfollowBar_priv user barId)
      in case promise d of
           (Inl err, d1) \<Rightarrow> (Next err, d1)
         | (Inr _, d1) \<Rightarrow>
             (case User_get (user_id user) d1 of
                (Inl err, d2) \<Rightarrow> (Next err, d2)
              | (Inr updatedUser, d2) \<Rightarrow> (Json updatedUser, d2)))"

section \<open>The user routes (user.route.js)\<close>

text \<open>
  \<open>router.param('userId', userCtrl.load)\<close>: the loader runs before the handlers of a
  route with a \<open>userId\<close> parameter; an error passed to \<open>next\<close> skips them and goes
  to the error responder.
\<close>

definition param_userId ::
  "(user_req \<Rightarrow> db \<Rightarrow> 'a response \<times> db) \<Rightarrow> req \<Rightarrow> oid \<Rightarrow> db \<Rightarrow> 'a response \<times> db" where
  "param_userId handler req userId d =
     (case userCtrl_load req userId d of
        (Inl e, d1) \<Rightarrow> (Next e, d1)
      | (Inr req1, d1) \<Rightarrow> handler req1 d1)"

text \<open>\<open>router.route('/:userId').get(userCtrl.get)\<close>\<close>

definition GET_users_userId ::
  "(jsval set \<Rightarrow> jsval set promise) \<Rightarrow> req \<Rightarrow> oid \<Rightarrow> db \<Rightarrow> user response \<times> db" where
  "GET_users_userId populateTeams req userId d =
     param_userId (userCtrl_get populateTeams) req userId d"

section \<open>The bar controller (bar.controller.js)\<close>

definition barCtrl_load :: "req \<Rightarrow> oid \<Rightarrow> db \<Rightarrow> (error + bar_req) \<times> db" where
  "barCtrl_load req i d =
     (case Bar_get i d of
        (Inr b, d1) \<Rightarrow> (Inr \<lparr>body = body req, query = query req, queryBar = b\<rparr>, d1)
      | (Inl e, d1) \<Rightarrow> (Inl e, d1))"

text \<open>\<open>saveBar(bar)\<close>: sets \<open>bar.location\<close> on the object it is given.\<close>

definition saveBar :: "props \<Rightarrow> bar promise" where
  "saveBar b d =
     (let b = set_prop b ''location''
                (JObj [(''type'', JStr ''Point''),
                       (''coordinates'', JArr [get_prop b ''longitude'', get_prop b ''latitude''])]);
          (createdBar, d1) = new_Bar b d
      in bar_save createdBar d1)"

definition barCtrl_create :: "req \<Rightarrow> db \<Rightarrow> bar response \<times> db" where
  "barCtrl_create req d =
     (case saveBar (body req) d of
        (Inr savedBar, d1) \<Rightarrow> (Json savedBar, d1)
      | (Inl e, d1) \<Rightarrow> (Next e, d1))"

text \<open>
  \<open>list(req, res, next)\<close>. \<open>Bar.list\<close> is in bar.model.js, not among the sources;
  the handler takes it as \<open>Bar_list\<close>, called with the limit and the skip.
\<close>

definition barCtrl_list ::
  "(jsval \<Rightarrow> jsval \<Rightarrow> bar list promise) \<Rightarrow> req \<Rightarrow> db \<Rightarrow> bar list response \<times> db" where
  "barCtrl_list Bar_list req d =
     (let limit = destructure_default (query req) ''limit'' (JNum 50);
          skip = destructure_default (query req) ''skip'' (JNum 0)
      in case Bar_list limit skip d of
           (Inr bs, d1) \<Rightarrow> (Json bs, d1)
         | (Inl e, d1) \<Rightarrow> (Next e, d1))"

section \<open>Reading a response\<close>

text \<open>
  Whether what reached the error responder is the typed application error: an
  \<open>APIError\<close> passed to \<open>next\<close>.
\<close>

definition typed_application_error :: "'a response \<Rightarrow> bool" where
  "typed_application_error r = (case r of Next (APIError m s p) \<Rightarrow> True | _ \<Rightarrow> False)"

section \<open>Example data\<close>

text \<open>
  Two users and one bar: alice follows bob and the bar, and has the team \<open>t1\<close> among
  her favourites.
\<close>

definition alice :: user where
  "alice = \<lparr>user_id = JStr ''u1'', username = JStr ''alice'', email = JStr ''a@x.com'',
            password = JStr ''p'', favTeams = {JStr ''t1''}, following = {JStr ''u2''},
            followers = {}, followingBars = {JStr ''b1''}\<rparr>"

definition bob :: user where
  "bob = \<lparr>user_id = JStr ''u2'', username = JStr ''bob'', email = JStr ''b@x.com'',
          password = JStr ''q'', favTeams = {}, following = {},
          followers = {JStr ''u1''}, followingBars = {}\<rparr>"

definition pub :: bar where
  "pub = \<lparr>bar_id = JStr ''b1'', name = JStr ''Pub'', placeId = JStr ''p1'',
          location = JObj [(''type'', JStr ''Point''),
                           (''coordinates'', JArr [JNum (-73), JNum 40])],
          bar_followers = {JStr ''u1''}\<rparr>"

definition db0 :: db where
  "db0 = \<lparr>users = [JStr ''u1'' \<mapsto> alice, JStr ''u2'' \<mapsto> bob],
          bars = [JStr ''b1'' \<mapsto> pub],
          next_oid = 0,
          faults = []\<rparr>"

text \<open>The same database when the next storage call, the second or the third fails.\<close>

definition db_down :: db where
  "db_down = db0\<lparr>faults := [Some (StorageError ''down'')]\<rparr>"

definition db_timeout :: db where
  "db_timeout = db0\<lparr>faults := [Some (StorageError ''timeout'')]\<rparr>"

definition db_second_fails :: db where
  "db_second_fails = db0\<lparr>faults := [None, Some (StorageError ''down'')]\<rparr>"

definition db_third_fails :: db where
  "db_third_fails = db0\<lparr>faults := [None, None, Some (StorageError ''down'')]\<rparr>"

text \<open>
  A request on a loaded user whose body names an operation, the team \<open>t1\<close>, the user
  \<open>u2\<close> and the bar \<open>b1\<close>.
\<close>

definition example_req :: "jsval \<Rightarrow> user \<Rightarrow> user_req" where
  "example_req operation u =
     \<lparr>body = [(''operation'', operation), (''favTeamId'', JStr ''t1''),
              (''user'', JStr ''u2''), (''barId'', JStr ''b1'')],
      query = [], queryUser = u\<rparr>"

text \<open>A request of alice to follow herself.\<close>

definition self_follow_req :: user_req where
  "self_follow_req =
     \<lparr>body = [(''operation'', JStr ''add''), (''user'', JStr ''u1'')],
      query = [], queryUser = alice\<rparr>"

text \<open>A request to rename alice.\<close>

definition rename_req :: user_req where
  "rename_req = \<lparr>body = [(''username'', JStr ''al'')], query = [], queryUser = alice\<rparr>"

text \<open>A request with a bar to create, and one with nothing in it.\<close>

definition create_req :: req where
  "create_req =
     \<lparr>body = [(''name'', JStr ''Pub''), (''placeId'', JStr ''p1''),
              (''latitude'', JNum 40), (''longitude'', JNum (-73))],
      query = []\<rparr>"

definition empty_req :: req where
  "empty_req = \<lparr>body = [], query = []\<rparr>"

text \<open>
  A data-layer \<open>list\<close> for the examples: a page of a fixed sequence, for a numeric
  limit and skip.
\<close>

definition page_of :: "'a list \<Rightarrow> jsval \<Rightarrow> jsval \<Rightarrow> 'a list promise" where
  "page_of xs limit skip d =
     (case (limit, skip) of
        (JNum l, JNum s) \<Rightarrow> (Inr (take (nat \<lfloor>l\<rfloor>) (drop (nat \<lfloor>s\<rfloor>) xs)), d)
      | _ \<Rightarrow> (Inl (StorageError ''cast''), d))"

text \<open>
  A team lookup for the examples: it answers with the team objects a directory has for
  the ids and leaves the database alone.
\<close>

definition team_lookup :: "(oid \<rightharpoonup> jsval) \<Rightarrow> jsval set \<Rightarrow> jsval set promise" where
  "team_lookup dir ids d = (Inr (Option.these (dir ` ids)), d)"

definition team_directory :: "oid \<rightharpoonup> jsval" where
  "team_directory = [JStr ''t1'' \<mapsto> JObj [(''name'', JStr ''Reds'')]]"

section \<open>Facts about the data layer and the example data\<close>

lemma storage_call_no_faults: "faults d = [] \<Longrightarrow> storage_call d = (None, d)"
  by (simp add: storage_call_def)

lemma User_get_stored:
  "faults d = [] \<Longrightarrow> users d i = Some u \<Longrightarrow> User_get i d = (Inr u, d)"
  by (simp add: User_get_def storage_call_def)

lemma Bar_get_stored:
  "faults d = [] \<Longrightarrow> bars d i = Some b \<Longrightarrow> Bar_get i d = (Inr b, d)"
  by (simp add: Bar_get_def storage_call_def)

lemma update_user_stored:
  "faults d = [] \<Longrightarrow> users d i = Some u \<Longrightarrow>
   update_user i f d = (Inr (f u), d\<lparr>users := (users d)(i \<mapsto> f u)\<rparr>)"
  by (simp add: update_user_def storage_call_def)

lemma update_bar_stored:
  "faults d = [] \<Longrightarrow> bars d i = Some b \<Longrightarrow>
   update_bar i f d = (Inr (f b), d\<lparr>bars := (bars d)(i \<mapsto> f b)\<rparr>)"
  by (simp add: update_bar_def storage_call_def)

lemma example_docs:
  "user_id alice = JStr ''u1''" "favTeams alice = {JStr ''t1''}"
  "following alice = {JStr ''u2''}" "followers alice = {}"
  "followingBars alice = {JStr ''b1''}"
  "user_id bob = JStr ''u2''" "favTeams bob = {}" "following bob = {}"
  "followers bob = {JStr ''u1''}" "followingBars bob = {}"
  "bar_id pub = JStr ''b1''" "bar_followers pub = {JStr ''u1''}"
  "name pub = JStr ''Pub''" "placeId pub = JStr ''p1''"
  by (simp_all add: alice_def bob_def pub_def)

lemma example_db:
  "faults db0 = []" "next_oid db0 = 0"
  "users db0 (JStr ''u1'') = Some alice" "users db0 (JStr ''u2'') = Some bob"
  "users db0 (JStr ''u9'') = None"
  "bars db0 (JStr ''b1'') = Some pub" "bars db0 (JStr ''b9'') = None"
  by (simp_all add: db0_def)

lemma example_faults:
  "storage_call db_down = (Some (StorageError ''down''), db0)"
  "storage_call db_timeout = (Some (StorageError ''timeout''), db0)"
  "storage_call db_second_fails = (None, db_down)"
  "storage_call db_third_fails = (None, db_second_fails)"
  "users db_down = users db0" "bars db_down = bars db0"
  "users db_second_fails = users db0" "bars db_second_fails = bars db0"
  "users db_third_fails = users db0" "bars db_third_fails = bars db0"
  by (simp_all add: storage_call_def db_down_def db_timeout_def db_second_fails_def
        db_third_fails_def db0_def)

lemma example_req_props:
  "get_prop (body (example_req v u)) ''operation'' = v"
  "get_prop (body (example_req v u)) ''favTeamId'' = JStr ''t1''"
  "get_prop (body (example_req v u)) ''user'' = JStr ''u2''"
  "get_prop (body (example_req v u)) ''barId'' = JStr ''b1''"
  "get_prop (body (example_req v u)) ''username'' = JUndefined"
  "queryUser (example_req v u) = u"
  by (simp_all add: example_req_def get_prop_def)

section \<open>Self-follow\<close>

text \<open>
  Claim C1: for every user A, following A as A fails with a reported error; it neither
  succeeds nor is silently ignored. The private follow operation rejects, whatever the
  database, and the handler, given the operation \<open>add\<close> and the id of the loaded user
  itself, passes the application error for a failed follow, with status 400, to
  \<open>next\<close>; the database is left as it was. The rejection is \<open>User.followUser\<close>'s;
  the handler has no check of its own.
\<close>

theorem C1_self_follow_rejected:
  "followUser_priv A (user_id A) d = (Inl SelfFollow, d)
   \<and> (get_prop (body req) ''operation'' = JStr ''add''
        \<longrightarrow> get_prop (body req) ''user'' = user_id (queryUser req)
        \<longrightarrow> updateFollowing req d = (Next (APIError ERROR_ON_FOLLOW_USER 400 True), d))"
  by (simp add: updateFollowing_def followUser_priv_def User_followUser_def strict_eq_def
        ADD_def BAD_REQUEST_def Let_def)

theorem C1_self_follow_rejected_witness:
  "get_prop (body self_follow_req) ''operation'' = JStr ''add''
   \<and> get_prop (body self_follow_req) ''user'' = user_id (queryUser self_follow_req)
   \<and> followUser_priv alice (user_id alice) db0 = (Inl SelfFollow, db0)
   \<and> updateFollowing self_follow_req db0 = (Next (APIError ERROR_ON_FOLLOW_USER 400 True), db0)"
proof -
  have pre: "get_prop (body self_follow_req) ''operation'' = JStr ''add''"
      "get_prop (body self_follow_req) ''user'' = user_id (queryUser self_follow_req)"
    by (simp_all add: self_follow_req_def get_prop_def alice_def)
  show ?thesis
    using C1_self_follow_rejected [of alice db0 self_follow_req] by (simp add: pre)
qed

section \<open>Following a bar\<close>

text \<open>
  Claim C2: for every user U and every stored bar B, once following the bar has
  succeeded, B's id is in U's followingBars and U's id is in B's followers; and when
  either of the two updates fails, the operation as a whole fails and the handler
  reports that failure. The first part is about the state the successful call
  leaves, for a bar stored under its own id. The second and third parts are the failure
  of the bar's update and of the user's; the fourth is the handler passing the failure
  to \<open>next\<close>; the fifth is the first part for the handler, when it answers with
  the updated user.
\<close>

theorem C2_follow_bar_both_sides:
  "(followBar_priv U B d = (Inr r, d') \<longrightarrow> bars d B = Some b \<longrightarrow> bar_id b = B \<longrightarrow>
      B \<in> followingBars r \<and> users d' (user_id U) = Some r
      \<and> (\<exists>stored. bars d' B = Some stored \<and> user_id U \<in> bar_followers stored))
   \<and> (Bar_get B d = (Inr b, d') \<longrightarrow> bar_addFollower b (user_id U) d' = (Inl e, d'') \<longrightarrow>
      followBar_priv U B d = (Inl e, d''))
   \<and> (Bar_get B d = (Inr b, d') \<longrightarrow> bar_addFollower b (user_id U) d' = (Inr b', d'') \<longrightarrow>
      userDoc_followBar U B d'' = (Inl e, d''') \<longrightarrow>
      followBar_priv U B d = (Inl e, d'''))
   \<and> (get_prop (body req) ''operation'' = JStr ''add'' \<longrightarrow>
      followBar_priv (queryUser req) (get_prop (body req) ''barId'') d = (Inl e, d') \<longrightarrow>
      updateFollowingBars req d = (Next e, d'))
   \<and> (get_prop (body req) ''operation'' = JStr ''add'' \<longrightarrow>
      bars d (get_prop (body req) ''barId'') = Some b \<longrightarrow>
      bar_id b = get_prop (body req) ''barId'' \<longrightarrow>
      updateFollowingBars req d = (Json updatedUser, d') \<longrightarrow>
      get_prop (body req) ''barId'' \<in> followingBars updatedUser
      \<and> users d' (user_id (queryUser req)) = Some updatedUser
      \<and> (\<exists>stored. bars d' (get_prop (body req) ''barId'') = Some stored
            \<and> user_id (queryUser req) \<in> bar_followers stored))"
proof -
  have success: "B \<in> followingBars r \<and> users d' (user_id U) = Some r
      \<and> (\<exists>stored. bars d' B = Some stored \<and> user_id U \<in> bar_followers stored)"
    if "followBar_priv U B d = (Inr r, d')" and "bars d B = Some b" and "bar_id b = B"
    for U B r d' b
    using that
    by (auto simp add: followBar_priv_def Bar_get_def bar_addFollower_def userDoc_followBar_def
          update_bar_def update_user_def storage_call_def
          split: list.splits option.splits)
  have bar_side: "followBar_priv U B d = (Inl e, d'')"
    if "Bar_get B d = (Inr b, d')" and "bar_addFollower b (user_id U) d' = (Inl e, d'')"
    using that by (simp add: followBar_priv_def)
  have user_side: "followBar_priv U B d = (Inl e, d''')"
    if "Bar_get B d = (Inr b, d')" and "bar_addFollower b (user_id U) d' = (Inr b', d'')"
      and "userDoc_followBar U B d'' = (Inl e, d''')"
    using that by (simp add: followBar_priv_def)
  have reported: "updateFollowingBars req d = (Next e, d')"
    if "get_prop (body req) ''operation'' = JStr ''add''"
      and "followBar_priv (queryUser req) (get_prop (body req) ''barId'') d = (Inl e, d')"
    using that by (simp add: updateFollowingBars_def strict_eq_def ADD_def Let_def)
  have answered: "get_prop (body req) ''barId'' \<in> followingBars updatedUser
      \<and> users d' (user_id (queryUser req)) = Some updatedUser
      \<and> (\<exists>stored. bars d' (get_prop (body req) ''barId'') = Some stored
            \<and> user_id (queryUser req) \<in> bar_followers stored)"
    if add: "get_prop (body req) ''operation'' = JStr ''add''"
      and b: "bars d (get_prop (body req) ''barId'') = Some b"
        "bar_id b = get_prop (body req) ''barId''"
      and json: "updateFollowingBars req d = (Json updatedUser, d')"
  proof -
    let ?U = "queryUser req" and ?B = "get_prop (body req) ''barId''"
    from add json obtain r dm where follow: "followBar_priv ?U ?B d = (Inr r, dm)"
      and get: "User_get (user_id ?U) dm = (Inr updatedUser, d')"
      by (auto simp add: updateFollowingBars_def strict_eq_def ADD_def Let_def
            split: prod.splits sum.splits)
    from success [OF follow b] have r: "?B \<in> followingBars r" "users dm (user_id ?U) = Some r"
      and s: "\<exists>stored. bars dm ?B = Some stored \<and> user_id ?U \<in> bar_followers stored"
      by auto
    from get have same: "users d' = users dm" "bars d' = bars dm"
      and found: "users dm (user_id ?U) = Some updatedUser"
      by (auto simp add: User_get_def storage_call_def split: list.splits option.splits)
    from r s same found show ?thesis by auto
  qed
  from success [of U B r d' b] bar_side user_side reported answered show ?thesis by blast
qed

theorem C2_follow_bar_both_sides_witness:
  "fst (followBar_priv bob (JStr ''b1'') db0) = Inr (bob\<lparr>followingBars := {JStr ''b1''}\<rparr>)
   \<and> bars db0 (JStr ''b1'') = Some pub \<and> bar_id pub = JStr ''b1''
   \<and> JStr ''b1'' \<in> followingBars (bob\<lparr>followingBars := {JStr ''b1''}\<rparr>)
   \<and> users (snd (followBar_priv bob (JStr ''b1'') db0)) (user_id bob)
        = Some (bob\<lparr>followingBars := {JStr ''b1''}\<rparr>)
   \<and> bars (snd (followBar_priv bob (JStr ''b1'') db0)) (JStr ''b1'')
        = Some (pub\<lparr>bar_followers := {JStr ''u2'', JStr ''u1''}\<rparr>)
   \<and> fst (Bar_get (JStr ''b1'') db_second_fails) = Inr pub
   \<and> fst (bar_addFollower pub (user_id bob) (snd (Bar_get (JStr ''b1'') db_second_fails)))
        = Inl (StorageError ''down'')
   \<and> fst (followBar_priv bob (JStr ''b1'') db_second_fails) = Inl (StorageError ''down'')
   \<and> fst (updateFollowingBars (example_req (JStr ''add'') bob) db_second_fails)
        = Next (StorageError ''down'')
   \<and> fst (userDoc_followBar bob (JStr ''b1'')
            (snd (bar_addFollower pub (user_id bob) (snd (Bar_get (JStr ''b1'') db_third_fails)))))
        = Inl (StorageError ''down'')
   \<and> fst (followBar_priv bob (JStr ''b1'') db_third_fails) = Inl (StorageError ''down'')
   \<and> fst (updateFollowingBars (example_req (JStr ''add'') bob) db_third_fails)
        = Next (StorageError ''down'')
   \<and> get_prop (body (example_req (JStr ''add'') bob)) ''operation'' = JStr ''add''
   \<and> fst (updateFollowingBars (example_req (JStr ''add'') bob) db0)
        = Json (bob\<lparr>followingBars := {JStr ''b1''}\<rparr>)"
proof -
  let ?pub' = "pub\<lparr>bar_followers := {JStr ''u2'', JStr ''u1''}\<rparr>"
  let ?bob' = "bob\<lparr>followingBars := {JStr ''b1''}\<rparr>"
  have ok: "followBar_priv bob (JStr ''b1'') db0 =
      (Inr ?bob',
       db0\<lparr>bars := (bars db0)(JStr ''b1'' \<mapsto> ?pub'),
            users := (users db0)(JStr ''u2'' \<mapsto> ?bob')\<rparr>)"
    by (simp add: followBar_priv_def bar_addFollower_def userDoc_followBar_def
          Bar_get_stored update_bar_stored update_user_stored example_db example_docs)
  have g2: "Bar_get (JStr ''b1'') db_second_fails = (Inr pub, db_down)"
    by (simp add: Bar_get_def example_faults example_db)
  have a2: "bar_addFollower pub (JStr ''u2'') db_down = (Inl (StorageError ''down''), db0)"
    by (simp add: bar_addFollower_def update_bar_def example_faults)
  have g3: "Bar_get (JStr ''b1'') db_third_fails = (Inr pub, db_second_fails)"
    by (simp add: Bar_get_def example_faults example_db)
  have a3: "bar_addFollower pub (JStr ''u2'') db_second_fails =
      (Inr ?pub', db_down\<lparr>bars := (bars db0)(JStr ''b1'' \<mapsto> ?pub')\<rparr>)"
    by (simp add: bar_addFollower_def update_bar_def example_faults example_db example_docs)
  have u3: "userDoc_followBar bob (JStr ''b1'')
        (db_down\<lparr>bars := (bars db0)(JStr ''b1'' \<mapsto> ?pub')\<rparr>)
      = (Inl (StorageError ''down''), db0\<lparr>bars := (bars db0)(JStr ''b1'' \<mapsto> ?pub')\<rparr>)"
    by (simp add: userDoc_followBar_def update_user_def storage_call_def db_down_def db0_def)
  have answered: "updateFollowingBars (example_req (JStr ''add'') bob) db0 =
      (Json ?bob',
       db0\<lparr>bars := (bars db0)(JStr ''b1'' \<mapsto> ?pub'),
            users := (users db0)(JStr ''u2'' \<mapsto> ?bob')\<rparr>)"
    by (simp add: updateFollowingBars_def ok User_get_stored example_req_props example_db
          example_docs strict_eq_def ADD_def Let_def)
  show ?thesis
    using C2_follow_bar_both_sides [where U = bob and B = "JStr ''b1''" and d = db0
        and r = ?bob' and d' = "snd (followBar_priv bob (JStr ''b1'') db0)" and b = pub]
      C2_follow_bar_both_sides [where req = "example_req (JStr ''add'') bob" and d = db0
        and b = pub and updatedUser = ?bob'
        and d' = "snd (updateFollowingBars (example_req (JStr ''add'') bob) db0)"]
      C2_follow_bar_both_sides [where U = bob and B = "JStr ''b1''" and d = db_second_fails
        and b = pub and d' = db_down and e = "StorageError ''down''" and d'' = db0]
      C2_follow_bar_both_sides [where req = "example_req (JStr ''add'') bob"
        and d = db_second_fails and e = "StorageError ''down''" and d' = db0]
      C2_follow_bar_both_sides [where U = bob and B = "JStr ''b1''" and d = db_third_fails
        and b = pub and d' = db_second_fails and e = "StorageError ''down''"
        and b' = ?pub'
        and d'' = "db_down\<lparr>bars := (bars db0)(JStr ''b1'' \<mapsto> ?pub')\<rparr>"
        and d''' = "db0\<lparr>bars := (bars db0)(JStr ''b1'' \<mapsto> ?pub')\<rparr>"]
      C2_follow_bar_both_sides [where req = "example_req (JStr ''add'') bob"
        and d = db_third_fails and e = "StorageError ''down''"
        and d' = "db0\<lparr>bars := (bars db0)(JStr ''b1'' \<mapsto> ?pub')\<rparr>"]
    by (simp add: ok answered g2 a2 g3 a3 u3 example_req_props example_db example_docs)
qed

section \<open>What reaches the error responder\<close>

text \<open>
  The handler for following a bar does not wrap the error of a failed follow. With the
  storage layer failing the first call, the follow fails with the storage error and what
  the handler passes to \<open>next\<close> is that storage error: it is not a typed application
  error, and it is another error when the storage error is another.
\<close>

theorem C3_bar_follow_error_not_wrapped:
  "followBar_priv alice (JStr ''b1'') db_down = (Inl (StorageError ''down''), db0)
   \<and> updateFollowingBars (example_req (JStr ''add'') alice) db_down
        = (Next (StorageError ''down''), db0)
   \<and> \<not> typed_application_error
          (fst (updateFollowingBars (example_req (JStr ''add'') alice) db_down))
   \<and> followBar_priv alice (JStr ''b1'') db_timeout = (Inl (StorageError ''timeout''), db0)
   \<and> updateFollowingBars (example_req (JStr ''add'') alice) db_timeout
        = (Next (StorageError ''timeout''), db0)"
proof -
  have down: "followBar_priv alice (JStr ''b1'') db_down = (Inl (StorageError ''down''), db0)"
    by (simp add: followBar_priv_def Bar_get_def example_faults)
  have down_reported: "updateFollowingBars (example_req (JStr ''add'') alice) db_down
      = (Next (StorageError ''down''), db0)"
    by (simp add: updateFollowingBars_def down example_req_props strict_eq_def ADD_def Let_def)
  have timeout: "followBar_priv alice (JStr ''b1'') db_timeout = (Inl (StorageError ''timeout''), db0)"
    by (simp add: followBar_priv_def Bar_get_def example_faults)
  have timeout_reported: "updateFollowingBars (example_req (JStr ''add'') alice) db_timeout
      = (Next (StorageError ''timeout''), db0)"
    by (simp add: updateFollowingBars_def timeout example_req_props strict_eq_def ADD_def Let_def)
  show ?thesis
    by (simp add: down down_reported timeout timeout_reported typed_application_error_def)
qed

text \<open>
  Claim C3, amended: in the handlers for favourite teams (\<open>updateFavTeams\<close>) and for
  following users (\<open>updateFollowing\<close>), whenever the domain operation fails, with
  whatever error, what is passed to \<open>next\<close> is an \<open>APIError\<close> with a message fixed
  per handler and operation, status 400 and the public flag. The handler for following
  bars (\<open>updateFollowingBars\<close>) passes the error of the failed operation on as it is.
\<close>

theorem C3_failures_forwarded:
  "(get_prop (body req) ''operation'' = JStr ''add'' \<longrightarrow>
      User_addFavTeam (user_id (queryUser req)) (get_prop (body req) ''favTeamId'') d = (Inl e, d') \<longrightarrow>
      updateFavTeams req d = (Next (APIError ERROR_ON_FOLLOW_TEAM 400 True), d'))
   \<and> (get_prop (body req) ''operation'' \<noteq> JStr ''add'' \<longrightarrow>
      User_removeFavTeam (user_id (queryUser req)) (get_prop (body req) ''favTeamId'') d = (Inl e, d') \<longrightarrow>
      updateFavTeams req d = (Next (APIError ERROR_ON_UNFOLLOW_TEAM 400 True), d'))
   \<and> (get_prop (body req) ''operation'' = JStr ''add'' \<longrightarrow>
      followUser_priv (queryUser req) (get_prop (body req) ''user'') d = (Inl e, d') \<longrightarrow>
      updateFollowing req d = (Next (APIError ERROR_ON_FOLLOW_USER 400 True), d'))
   \<and> (get_prop (body req) ''operation'' \<noteq> JStr ''add'' \<longrightarrow>
      unfollowUser_priv (queryUser req) (get_prop (body req) ''user'') d = (Inl e, d') \<longrightarrow>
      updateFollowing req d = (Next (APIError ERROR_ON_UNFOLLOW_USER 400 True), d'))
   \<and> (get_prop (body req) ''operation'' = JStr ''add'' \<longrightarrow>
      followBar_priv (queryUser req) (get_prop (body req) ''barId'') d = (Inl e, d') \<longrightarrow>
      updateFollowingBars req d = (Next e, d'))
   \<and> (get_prop (body req) ''operation'' \<noteq> JStr ''add'' \<longrightarrow>
      unfollowBar_priv (queryUser req) (get_prop (body req) ''barId'') d = (Inl e, d') \<longrightarrow>
      updateFollowingBars req d = (Next e, d'))"
  by (simp add: updateFavTeams_def updateFollowing_def updateFollowingBars_def
        strict_eq_def ADD_def BAD_REQUEST_def Let_def)

theorem C3_failures_forwarded_witness:
  "get_prop (body (example_req (JStr ''add'') alice)) ''operation'' = JStr ''add''
   \<and> fst (User_addFavTeam (user_id alice) (JStr ''t1'') db_down) = Inl (StorageError ''down'')
   \<and> fst (updateFavTeams (example_req (JStr ''add'') alice) db_down)
        = Next (APIError ERROR_ON_FOLLOW_TEAM 400 True)
   \<and> fst (followUser_priv alice (JStr ''u2'') db_down) = Inl (StorageError ''down'')
   \<and> fst (updateFollowing (example_req (JStr ''add'') alice) db_down)
        = Next (APIError ERROR_ON_FOLLOW_USER 400 True)
   \<and> fst (followBar_priv alice (JStr ''b1'') db_down) = Inl (StorageError ''down'')
   \<and> fst (updateFollowingBars (example_req (JStr ''add'') alice) db_down)
        = Next (StorageError ''down'')
   \<and> get_prop (body (example_req (JStr ''remove'') alice)) ''operation'' \<noteq> JStr ''add''
   \<and> fst (User_removeFavTeam (user_id alice) (JStr ''t1'') db_down) = Inl (StorageError ''down'')
   \<and> fst (updateFavTeams (example_req (JStr ''remove'') alice) db_down)
        = Next (APIError ERROR_ON_UNFOLLOW_TEAM 400 True)
   \<and> fst (unfollowUser_priv alice (JStr ''u2'') db_down) = Inl (StorageError ''down'')
   \<and> fst (updateFollowing (example_req (JStr ''remove'') alice) db_down)
        = Next (APIError ERROR_ON_UNFOLLOW_USER 400 True)
   \<and> fst (unfollowBar_priv alice (JStr ''b1'') db_down) = Inl (StorageError ''down'')
   \<and> fst (updateFollowingBars (example_req (JStr ''remove'') alice) db_down)
        = Next (StorageError ''down'')"
proof -
  have fav_add: "User_addFavTeam (JStr ''u1'') (JStr ''t1'') db_down = (Inl (StorageError ''down''), db0)"
    by (simp add: User_addFavTeam_def update_user_def example_faults)
  have fav_rm: "User_removeFavTeam (JStr ''u1'') (JStr ''t1'') db_down = (Inl (StorageError ''down''), db0)"
    by (simp add: User_removeFavTeam_def update_user_def example_faults)
  have fol: "followUser_priv alice (JStr ''u2'') db_down = (Inl (StorageError ''down''), db0)"
    by (simp add: followUser_priv_def User_followUser_def User_get_def example_faults example_docs)
  have unfol: "unfollowUser_priv alice (JStr ''u2'') db_down = (Inl (StorageError ''down''), db0)"
    by (simp add: unfollowUser_priv_def User_unfollowUser_def User_get_def example_faults)
  have folbar: "followBar_priv alice (JStr ''b1'') db_down = (Inl (StorageError ''down''), db0)"
    by (simp add: followBar_priv_def Bar_get_def example_faults)
  have unfolbar: "unfollowBar_priv alice (JStr ''b1'') db_down = (Inl (StorageError ''down''), db0)"
    by (simp add: unfollowBar_priv_def Bar_get_def example_faults)
  show ?thesis
    using C3_failures_forwarded [of "example_req (JStr ''add'') alice" db_down "StorageError ''down''" db0]
      C3_failures_forwarded [of "example_req (JStr ''remove'') alice" db_down "StorageError ''down''" db0]
    by (simp add: example_req_props example_docs fav_add fav_rm fol unfol folbar unfolbar)
qed

section \<open>Loading a document that does not exist\<close>

text \<open>
  Claim C4: for every id that no document matches, get-by-id fails, and so does the
  loader of the path parameter, for users and for bars: an error goes to \<open>next\<close>, no
  document is put on the request and, on a user route, the handler is not run. When the
  storage layer answers the lookup, the error is NotFound; when the lookup itself
  fails, it is the storage layer's error.
\<close>

theorem C4_missing_document_not_found:
  "(users d i = None \<longrightarrow>
      (\<exists>e d'. userCtrl_load req i d = (Inl e, d') \<and> param_userId handler req i d = (Next e, d'))
      \<and> (fst (storage_call d) = None \<longrightarrow>
            User_get i d = (Inl NotFound, snd (storage_call d))
          \<and> userCtrl_load req i d = (Inl NotFound, snd (storage_call d))
          \<and> param_userId handler req i d = (Next NotFound, snd (storage_call d))))
   \<and> (bars d i = None \<longrightarrow>
      (\<exists>e d'. barCtrl_load req i d = (Inl e, d'))
      \<and> (fst (storage_call d) = None \<longrightarrow>
            Bar_get i d = (Inl NotFound, snd (storage_call d))
          \<and> barCtrl_load req i d = (Inl NotFound, snd (storage_call d))))"
  by (auto simp add: userCtrl_load_def barCtrl_load_def param_userId_def User_get_def Bar_get_def
        storage_call_def split: list.splits option.splits)

theorem C4_missing_document_not_found_witness:
  "users db0 (JStr ''u9'') = None
   \<and> fst (storage_call db0) = None
   \<and> User_get (JStr ''u9'') db0 = (Inl NotFound, db0)
   \<and> userCtrl_load empty_req (JStr ''u9'') db0 = (Inl NotFound, db0)
   \<and> param_userId userCtrl_update empty_req (JStr ''u9'') db0 = (Next NotFound, db0)
   \<and> bars db0 (JStr ''b9'') = None
   \<and> Bar_get (JStr ''b9'') db0 = (Inl NotFound, db0)
   \<and> barCtrl_load empty_req (JStr ''b9'') db0 = (Inl NotFound, db0)"
  using C4_missing_document_not_found [of db0 "JStr ''u9''" empty_req userCtrl_update]
    C4_missing_document_not_found [of db0 "JStr ''b9''" empty_req userCtrl_update]
  by (simp add: storage_call_no_faults example_db)

section \<open>Unfollowing twice\<close>

lemma unfollowUser_twice:
  assumes "faults d = []" and "users d (user_id A) = Some A" and "users d b = Some B"
  shows "\<exists>A1 d1. unfollowUser_priv A b d = (Inr A1, d1)
         \<and> unfollowUser_priv A b d1 = (Inr A1, d1)
         \<and> unfollowUser_priv A1 b d1 = (Inr A1, d1)
         \<and> (b \<notin> following A \<and> user_id A \<notin> followers B \<longrightarrow> A1 = A \<and> d1 = d)"
proof (cases "b = user_id A")
  case True
  with assms show ?thesis
    by (simp add: unfollowUser_priv_def User_unfollowUser_def User_get_def update_user_def
          storage_call_def map_upd_triv)
next
  case False
  with assms show ?thesis
    by (simp add: unfollowUser_priv_def User_unfollowUser_def User_get_def update_user_def
          storage_call_def map_upd_triv fun_upd_twist)
qed

lemma unfollowBar_twice:
  assumes "faults d = []" and "users d (user_id A) = Some A" and "bars d p = Some P"
    and "bar_id P = p"
  shows "\<exists>A1 d1. unfollowBar_priv A p d = (Inr A1, d1)
         \<and> unfollowBar_priv A p d1 = (Inr A1, d1)
         \<and> unfollowBar_priv A1 p d1 = (Inr A1, d1)
         \<and> (p \<notin> followingBars A \<and> user_id A \<notin> bar_followers P \<longrightarrow> A1 = A \<and> d1 = d)"
  using assms
  by (simp add: unfollowBar_priv_def Bar_get_def bar_removeFollower_def userDoc_unfollowBar_def
        update_user_def update_bar_def storage_call_def map_upd_triv)

text \<open>
  Claim C5: for every pair of stored users A and B, and for every stored user and stored
  bar, unfollowing twice in a row leaves the database as unfollowing once does; and
  unfollowing where there is no relation changes nothing and raises no error. Here no
  storage call fails, A is the stored document of its id and the bar is stored under its
  own id. The first call resolves with the updated user \<open>A1\<close> and leaves \<open>d1\<close>; a
  second call, with the document the first was given or with the one it resolved with,
  resolves with \<open>A1\<close> again and leaves \<open>d1\<close>.
\<close>

theorem C5_unfollow_idempotent:
  "(faults d = [] \<longrightarrow> users d (user_id A) = Some A \<longrightarrow> users d b = Some B \<longrightarrow>
      (\<exists>A1 d1. unfollowUser_priv A b d = (Inr A1, d1)
         \<and> unfollowUser_priv A b d1 = (Inr A1, d1)
         \<and> unfollowUser_priv A1 b d1 = (Inr A1, d1)
         \<and> (b \<notin> following A \<and> user_id A \<notin> followers B \<longrightarrow> A1 = A \<and> d1 = d)))
   \<and> (faults d = [] \<longrightarrow> users d (user_id A) = Some A \<longrightarrow> bars d p = Some P \<longrightarrow> bar_id P = p \<longrightarrow>
      (\<exists>A1 d1. unfollowBar_priv A p d = (Inr A1, d1)
         \<and> unfollowBar_priv A p d1 = (Inr A1, d1)
         \<and> unfollowBar_priv A1 p d1 = (Inr A1, d1)
         \<and> (p \<notin> followingBars A \<and> user_id A \<notin> bar_followers P \<longrightarrow> A1 = A \<and> d1 = d)))"
  using unfollowUser_twice [of d A b B] unfollowBar_twice [of d A p P] by blast

theorem C5_unfollow_idempotent_witness:
  "faults db0 = [] \<and> users db0 (user_id alice) = Some alice \<and> users db0 (JStr ''u2'') = Some bob
   \<and> bars db0 (JStr ''b1'') = Some pub \<and> bar_id pub = JStr ''b1''
   \<and> fst (unfollowUser_priv alice (JStr ''u2'') db0) = Inr (alice\<lparr>following := {}\<rparr>)
   \<and> unfollowUser_priv alice (JStr ''u2'') (snd (unfollowUser_priv alice (JStr ''u2'') db0))
        = unfollowUser_priv alice (JStr ''u2'') db0
   \<and> fst (unfollowBar_priv alice (JStr ''b1'') db0) = Inr (alice\<lparr>followingBars := {}\<rparr>)
   \<and> unfollowBar_priv alice (JStr ''b1'') (snd (unfollowBar_priv alice (JStr ''b1'') db0))
        = unfollowBar_priv alice (JStr ''b1'') db0
   \<and> users db0 (user_id bob) = Some bob \<and> users db0 (JStr ''u1'') = Some alice
   \<and> JStr ''u1'' \<notin> following bob \<and> user_id bob \<notin> followers alice
   \<and> unfollowUser_priv bob (JStr ''u1'') db0 = (Inr bob, db0)"
proof -
  let ?alice' = "alice\<lparr>following := {}\<rparr>"
  let ?alice'' = "alice\<lparr>followingBars := {}\<rparr>"
  have u: "unfollowUser_priv alice (JStr ''u2'') db0 =
      (Inr ?alice',
       db0\<lparr>users := (users db0)(JStr ''u1'' \<mapsto> ?alice', JStr ''u2'' \<mapsto> bob\<lparr>followers := {}\<rparr>)\<rparr>)"
    by (simp add: unfollowUser_priv_def User_unfollowUser_def User_get_stored update_user_stored
          example_db example_docs)
  have b: "unfollowBar_priv alice (JStr ''b1'') db0 =
      (Inr ?alice'',
       db0\<lparr>bars := (bars db0)(JStr ''b1'' \<mapsto> pub\<lparr>bar_followers := {}\<rparr>),
            users := (users db0)(JStr ''u1'' \<mapsto> ?alice'')\<rparr>)"
    by (simp add: unfollowBar_priv_def bar_removeFollower_def userDoc_unfollowBar_def
          Bar_get_stored update_bar_stored update_user_stored example_db example_docs)
  have first: "\<exists>A1 d1. unfollowUser_priv alice (JStr ''u2'') db0 = (Inr A1, d1)
         \<and> unfollowUser_priv alice (JStr ''u2'') d1 = (Inr A1, d1)"
    and second: "\<exists>A1 d1. unfollowBar_priv alice (JStr ''b1'') db0 = (Inr A1, d1)
         \<and> unfollowBar_priv alice (JStr ''b1'') d1 = (Inr A1, d1)"
    using C5_unfollow_idempotent [of db0 alice "JStr ''u2''" bob "JStr ''b1''" pub]
    by (simp_all add: example_db example_docs) blast+
  have third: "unfollowUser_priv bob (JStr ''u1'') db0 = (Inr bob, db0)"
    using C5_unfollow_idempotent [of db0 bob "JStr ''u1''" alice "JStr ''b1''" pub]
    by (simp add: example_db example_docs)
  from first have twice_u: "unfollowUser_priv alice (JStr ''u2'') (snd (unfollowUser_priv alice (JStr ''u2'') db0))
        = unfollowUser_priv alice (JStr ''u2'') db0"
    by auto
  from second have twice_b: "unfollowBar_priv alice (JStr ''b1'') (snd (unfollowBar_priv alice (JStr ''b1'') db0))
        = unfollowBar_priv alice (JStr ''b1'') db0"
    by auto
  show ?thesis
    by (simp add: twice_u twice_b third example_db example_docs) (simp add: u b)
qed

section \<open>Listing\<close>

text \<open>
  Claim C6: for every list request, for users and for bars, a query without \<open>limit\<close>
  asks the data layer for a page of 50, and a query without \<open>skip\<close> asks for offset
  0. Whatever the data layer's \<open>list\<close> is, the handler answers with what it yields
  for that limit and that skip.
\<close>

theorem C6_list_defaults:
  "(map_of (query req) ''limit'' = None \<longrightarrow>
      userCtrl_list User_list req d =
        (case User_list (JNum 50) (destructure_default (query req) ''skip'' (JNum 0)) d of
           (Inr us, d1) \<Rightarrow> (Json us, d1) | (Inl e, d1) \<Rightarrow> (Next e, d1))
    \<and> barCtrl_list Bar_list req d =
        (case Bar_list (JNum 50) (destructure_default (query req) ''skip'' (JNum 0)) d of
           (Inr bs, d1) \<Rightarrow> (Json bs, d1) | (Inl e, d1) \<Rightarrow> (Next e, d1)))
   \<and> (map_of (query req) ''skip'' = None \<longrightarrow>
      userCtrl_list User_list req d =
        (case User_list (destructure_default (query req) ''limit'' (JNum 50)) (JNum 0) d of
           (Inr us, d1) \<Rightarrow> (Json us, d1) | (Inl e, d1) \<Rightarrow> (Next e, d1))
    \<and> barCtrl_list Bar_list req d =
        (case Bar_list (destructure_default (query req) ''limit'' (JNum 50)) (JNum 0) d of
           (Inr bs, d1) \<Rightarrow> (Json bs, d1) | (Inl e, d1) \<Rightarrow> (Next e, d1)))"
  by (simp add: userCtrl_list_def barCtrl_list_def destructure_default_def get_prop_def Let_def)

theorem C6_list_defaults_witness:
  "map_of (query empty_req) ''limit'' = None
   \<and> map_of (query empty_req) ''skip'' = None
   \<and> userCtrl_list (page_of [alice, bob]) empty_req db0 = (Json [alice, bob], db0)
   \<and> barCtrl_list (page_of [pub]) empty_req db0 = (Json [pub], db0)"
proof -
  have pre: "map_of (query empty_req) ''limit'' = None" "map_of (query empty_req) ''skip'' = None"
      "destructure_default (query empty_req) ''limit'' (JNum 50) = JNum 50"
      "destructure_default (query empty_req) ''skip'' (JNum 0) = JNum 0"
    by (simp_all add: empty_req_def destructure_default_def get_prop_def)
  have pages: "page_of [alice, bob] (JNum 50) (JNum 0) db0 = (Inr [alice, bob], db0)"
      "page_of [pub] (JNum 50) (JNum 0) db0 = (Inr [pub], db0)"
    by (simp_all add: page_of_def)
  show ?thesis
    using C6_list_defaults [of empty_req "page_of [alice, bob]" db0 "page_of [pub]"]
    by (simp add: pre pages)
qed

section \<open>Reading one user\<close>

text \<open>
  Claim C7: for every stored user, the handler of GET on one user answers with a copy of
  the user whose favTeams are the team objects the lookup resolved with, and saves
  nothing: the stored user stays as it was, without the team objects. For every team
  lookup, the database after the handler is the one the lookup left (first part); when
  the lookup resolves, the answer is the loaded user with the teams in place of the ids
  (second part); and on the route, for a stored user, with no storage call failing and a
  lookup that resolves and leaves the database alone, the answer is that copy and the
  database is the one before the request (third part).
\<close>

theorem C7_get_populates_copy:
  "snd (userCtrl_get populateTeams req d) = snd (populateTeams (favTeams (queryUser req)) d)
   \<and> (populateTeams (favTeams (queryUser req)) d = (Inr teams, d') \<longrightarrow>
        userCtrl_get populateTeams req d = (Json ((queryUser req)\<lparr>favTeams := teams\<rparr>), d'))
   \<and> (faults d = [] \<longrightarrow> users d i = Some u \<longrightarrow> populateTeams (favTeams u) d = (Inr teams, d) \<longrightarrow>
        GET_users_userId populateTeams r i d = (Json (u\<lparr>favTeams := teams\<rparr>), d))"
  by (auto simp add: userCtrl_get_def GET_users_userId_def param_userId_def userCtrl_load_def
        User_get_def toObject_def storage_call_def Let_def
        split: prod.splits sum.splits)

theorem C7_get_populates_copy_witness:
  "team_lookup team_directory (favTeams alice) db0
        = (Inr {JObj [(''name'', JStr ''Reds'')]}, db0)
   \<and> faults db0 = [] \<and> users db0 (JStr ''u1'') = Some alice
   \<and> userCtrl_get (team_lookup team_directory) (example_req JUndefined alice) db0
        = (Json (alice\<lparr>favTeams := {JObj [(''name'', JStr ''Reds'')]}\<rparr>), db0)
   \<and> GET_users_userId (team_lookup team_directory) empty_req (JStr ''u1'') db0
        = (Json (alice\<lparr>favTeams := {JObj [(''name'', JStr ''Reds'')]}\<rparr>), db0)
   \<and> favTeams alice = {JStr ''t1''}"
proof -
  have lookup: "team_lookup team_directory {JStr ''t1''} db0
      = (Inr {JObj [(''name'', JStr ''Reds'')]}, db0)"
    by (simp add: team_lookup_def team_directory_def)
  show ?thesis
    using C7_get_populates_copy [of "team_lookup team_directory" "example_req JUndefined alice"
        db0 "{JObj [(''name'', JStr ''Reds'')]}" db0 "JStr ''u1''" alice empty_req]
    by (simp add: lookup example_db example_docs example_req_props)
qed

section \<open>Creating a bar\<close>

text \<open>
  Claim C8: for every request body, the handler that creates a bar makes one storage
  call, the save, with no lookup before it; and when the storage layer accepts the save,
  the handler answers with the saved document, that document is stored under its id,
  its location is the point whose coordinates are the body's longitude and latitude, in
  this order, and its name and place id are the body's. This holds whatever bars are
  stored already.
\<close>

theorem C8_create_bar_persists_point:
  "faults (snd (barCtrl_create req d)) = tl (faults d)
   \<and> (fst (storage_call d) = None \<longrightarrow>
        (\<exists>doc d'. barCtrl_create req d = (Json doc, d')
           \<and> bars d' (bar_id doc) = Some doc
           \<and> location doc =
               JObj [(''type'', JStr ''Point''),
                     (''coordinates'', JArr [get_prop (body req) ''longitude'',
                                             get_prop (body req) ''latitude''])]
           \<and> name doc = get_prop (body req) ''name''
           \<and> placeId doc = get_prop (body req) ''placeId''))"
  by (auto simp add: barCtrl_create_def saveBar_def new_Bar_def bar_save_def storage_call_def
        set_prop_def get_prop_def update_conv' Let_def
        split: list.splits option.splits)

theorem C8_create_bar_persists_point_witness:
  "fst (storage_call db0) = None
   \<and> bars db0 (JStr ''b1'') = Some pub \<and> name pub = JStr ''Pub'' \<and> placeId pub = JStr ''p1''
   \<and> fst (barCtrl_create create_req db0) =
        Json \<lparr>bar_id = JNum 0, name = JStr ''Pub'', placeId = JStr ''p1'',
              location = JObj [(''type'', JStr ''Point''),
                               (''coordinates'', JArr [JNum (-73), JNum 40])],
              bar_followers = {}\<rparr>
   \<and> bars (snd (barCtrl_create create_req db0)) (JNum 0) =
        Some \<lparr>bar_id = JNum 0, name = JStr ''Pub'', placeId = JStr ''p1'',
              location = JObj [(''type'', JStr ''Point''),
                               (''coordinates'', JArr [JNum (-73), JNum 40])],
              bar_followers = {}\<rparr>
   \<and> bars (snd (barCtrl_create create_req db0)) (JStr ''b1'') = Some pub"
proof -
  have created: "barCtrl_create create_req db0 =
      (Json \<lparr>bar_id = JNum 0, name = JStr ''Pub'', placeId = JStr ''p1'',
             location = JObj [(''type'', JStr ''Point''),
                              (''coordinates'', JArr [JNum (-73), JNum 40])],
             bar_followers = {}\<rparr>,
       db0\<lparr>next_oid := Suc 0,
            bars := (bars db0)(JNum 0 \<mapsto>
              \<lparr>bar_id = JNum 0, name = JStr ''Pub'', placeId = JStr ''p1'',
               location = JObj [(''type'', JStr ''Point''),
                                (''coordinates'', JArr [JNum (-73), JNum 40])],
               bar_followers = {}\<rparr>)\<rparr>)"
    by (simp add: barCtrl_create_def saveBar_def new_Bar_def bar_save_def storage_call_def
          set_prop_def get_prop_def create_req_def example_db)
  show ?thesis
    using C8_create_bar_persists_point [of create_req db0]
    by (simp add: created storage_call_no_faults example_db example_docs)
qed

section \<open>The operation of an update\<close>

text \<open>
  Claim C9: in the handlers for favourite teams, for following users and for following
  bars, every operation in the body that is not the string \<open>add\<close>, a misspelling or
  an absent one included, runs the remove branch; none is turned down as not an
  operation.
\<close>

theorem C9_other_operation_runs_remove:
  assumes "get_prop (body req) ''operation'' \<noteq> JStr ''add''"
  shows "updateFavTeams req d =
           (case User_removeFavTeam (user_id (queryUser req)) (get_prop (body req) ''favTeamId'') d of
              (Inr u, d1) \<Rightarrow> (Json u, d1)
            | (Inl err, d1) \<Rightarrow> (Next (APIError ERROR_ON_UNFOLLOW_TEAM 400 True), d1))
       \<and> updateFollowing req d =
           (case unfollowUser_priv (queryUser req) (get_prop (body req) ''user'') d of
              (Inr u, d1) \<Rightarrow> (Json u, d1)
            | (Inl err, d1) \<Rightarrow> (Next (APIError ERROR_ON_UNFOLLOW_USER 400 True), d1))
       \<and> updateFollowingBars req d =
           (case unfollowBar_priv (queryUser req) (get_prop (body req) ''barId'') d of
              (Inl err, d1) \<Rightarrow> (Next err, d1)
            | (Inr u, d1) \<Rightarrow>
                (case User_get (user_id (queryUser req)) d1 of
                   (Inl err, d2) \<Rightarrow> (Next err, d2)
                 | (Inr updatedUser, d2) \<Rightarrow> (Json updatedUser, d2)))"
  using assms
  unfolding updateFavTeams_def updateFollowing_def updateFollowingBars_def
    strict_eq_def ADD_def BAD_REQUEST_def Let_def
  by simp

theorem C9_other_operation_runs_remove_witness:
  "get_prop (body (example_req (JStr ''ad'') alice)) ''operation'' \<noteq> JStr ''add''
   \<and> fst (updateFavTeams (example_req (JStr ''ad'') alice) db0) = Json (alice\<lparr>favTeams := {}\<rparr>)
   \<and> fst (updateFollowing (example_req (JStr ''ad'') alice) db0) = Json (alice\<lparr>following := {}\<rparr>)
   \<and> fst (updateFollowingBars (example_req (JStr ''ad'') alice) db0)
        = Json (alice\<lparr>followingBars := {}\<rparr>)
   \<and> get_prop (body (example_req JUndefined alice)) ''operation'' \<noteq> JStr ''add''
   \<and> fst (updateFavTeams (example_req JUndefined alice) db0) = Json (alice\<lparr>favTeams := {}\<rparr>)
   \<and> map_of (body rename_req) ''operation'' = None
   \<and> get_prop (body rename_req) ''operation'' \<noteq> JStr ''add''
   \<and> updateFavTeams rename_req db0 = (Json alice, db0)"
proof -
  have fav: "User_removeFavTeam (JStr ''u1'') (JStr ''t1'') db0 =
      (Inr (alice\<lparr>favTeams := {}\<rparr>),
       db0\<lparr>users := (users db0)(JStr ''u1'' \<mapsto> alice\<lparr>favTeams := {}\<rparr>)\<rparr>)"
    by (simp add: User_removeFavTeam_def update_user_stored example_db example_docs)
  have u: "unfollowUser_priv alice (JStr ''u2'') db0 =
      (Inr (alice\<lparr>following := {}\<rparr>),
       db0\<lparr>users := (users db0)(JStr ''u1'' \<mapsto> alice\<lparr>following := {}\<rparr>,
                                   JStr ''u2'' \<mapsto> bob\<lparr>followers := {}\<rparr>)\<rparr>)"
    by (simp add: unfollowUser_priv_def User_unfollowUser_def User_get_stored update_user_stored
          example_db example_docs)
  have b: "unfollowBar_priv alice (JStr ''b1'') db0 =
      (Inr (alice\<lparr>followingBars := {}\<rparr>),
       db0\<lparr>bars := (bars db0)(JStr ''b1'' \<mapsto> pub\<lparr>bar_followers := {}\<rparr>),
            users := (users db0)(JStr ''u1'' \<mapsto> alice\<lparr>followingBars := {}\<rparr>)\<rparr>)"
    by (simp add: unfollowBar_priv_def bar_removeFollower_def userDoc_unfollowBar_def
          Bar_get_stored update_bar_stored update_user_stored example_db example_docs)
  have g: "User_get (JStr ''u1'')
        (db0\<lparr>bars := (bars db0)(JStr ''b1'' \<mapsto> pub\<lparr>bar_followers := {}\<rparr>),
             users := (users db0)(JStr ''u1'' \<mapsto> alice\<lparr>followingBars := {}\<rparr>)\<rparr>)
      = (Inr (alice\<lparr>followingBars := {}\<rparr>),
         db0\<lparr>bars := (bars db0)(JStr ''b1'' \<mapsto> pub\<lparr>bar_followers := {}\<rparr>),
              users := (users db0)(JStr ''u1'' \<mapsto> alice\<lparr>followingBars := {}\<rparr>)\<rparr>)"
    by (simp add: User_get_stored example_db)
  have absent: "map_of (body rename_req) ''operation'' = None"
      "get_prop (body rename_req) ''operation'' = JUndefined"
      "get_prop (body rename_req) ''favTeamId'' = JUndefined"
      "queryUser rename_req = alice"
    by (simp_all add: rename_req_def get_prop_def)
  have same: "alice\<lparr>favTeams := favTeams alice - {JUndefined}\<rparr> = alice"
    by (simp add: alice_def)
  have noop: "User_removeFavTeam (JStr ''u1'') JUndefined db0 = (Inr alice, db0)"
    by (simp add: User_removeFavTeam_def update_user_stored example_db same map_upd_triv)
  show ?thesis
    using C9_other_operation_runs_remove [of "example_req (JStr ''ad'') alice" db0]
      C9_other_operation_runs_remove [of "example_req JUndefined alice" db0]
      C9_other_operation_runs_remove [of rename_req db0]
    by (simp add: example_req_props example_docs fav u b g absent noop)
qed

section \<open>Updating a user\<close>

text \<open>
  Claim C10: when the storage layer accepts the save, the update handler saves and
  answers with the loaded user: unchanged in every field, username included, when the
  body's username is absent or falsy, and changed in the username alone, to the body's,
  when the body has a username. What is stored under the user's id is what is answered.
\<close>

theorem C10_update_changes_only_username:
  "fst (storage_call d) = None \<Longrightarrow>
   (\<not> truthy (get_prop (body req) ''username'') \<longrightarrow>
      userCtrl_update req d =
        (Json (queryUser req),
         (snd (storage_call d))\<lparr>users := (users d)(user_id (queryUser req) \<mapsto> queryUser req)\<rparr>))
   \<and> (truthy (get_prop (body req) ''username'') \<longrightarrow>
      userCtrl_update req d =
        (Json ((queryUser req)\<lparr>username := get_prop (body req) ''username''\<rparr>),
         (snd (storage_call d))\<lparr>users := (users d)(user_id (queryUser req) \<mapsto>
            (queryUser req)\<lparr>username := get_prop (body req) ''username''\<rparr>)\<rparr>))"
  by (auto simp add: userCtrl_update_def user_save_def storage_call_def Let_def
        split: list.splits option.splits)

theorem C10_update_changes_only_username_witness:
  "fst (storage_call db0) = None
   \<and> \<not> truthy (get_prop (body (example_req (JStr ''x'') alice)) ''username'')
   \<and> fst (userCtrl_update (example_req (JStr ''x'') alice) db0) = Json alice
   \<and> users (snd (userCtrl_update (example_req (JStr ''x'') alice) db0)) (JStr ''u1'') = Some alice
   \<and> truthy (get_prop (body rename_req) ''username'')
   \<and> fst (userCtrl_update rename_req db0) = Json (alice\<lparr>username := JStr ''al''\<rparr>)
   \<and> users (snd (userCtrl_update rename_req db0)) (JStr ''u1'')
        = Some (alice\<lparr>username := JStr ''al''\<rparr>)
   \<and> email (alice\<lparr>username := JStr ''al''\<rparr>) = email alice
   \<and> following (alice\<lparr>username := JStr ''al''\<rparr>) = following alice"
proof -
  have pre: "get_prop (body rename_req) ''username'' = JStr ''al''" "queryUser rename_req = alice"
    by (simp_all add: rename_req_def get_prop_def)
  show ?thesis
    using C10_update_changes_only_username [of db0 "example_req (JStr ''x'') alice"]
      C10_update_changes_only_username [of db0 rename_req]
    by (simp add: pre storage_call_no_faults example_db example_docs example_req_props)
qed

end
